theory Spec2Isabelle
  imports Main
begin

section \<open>JavaScript values used by the modules\<close>

text \<open>
  Strings are \<^typ>\<open>string\<close>. A parameter or property that a caller may leave out is a
  \<^typ>\<open>'a option\<close>, \<open>None\<close> standing for \<^verbatim>\<open>undefined\<close>. A plain object whose
  properties are strings (a header object) is a map from property names to values.
  A promise is modelled by its outcome: \<open>Inl e\<close> for a rejection with \<open>e\<close>, \<open>Inr v\<close>
  for a fulfilment with \<open>v\<close>.
\<close>

type_synonym obj = "string \<rightharpoonup> string"

text \<open>\<^verbatim>\<open>a || b\<close> on an optional string: \<^verbatim>\<open>undefined\<close> and the empty string are falsy.\<close>

definition js_or :: "string option \<Rightarrow> string \<Rightarrow> string" where
  "js_or a b = (case a of None \<Rightarrow> b | Some s \<Rightarrow> if s = [] then b else s)"

text \<open>\<^verbatim>\<open>a || b\<close> on an optional function: every function is truthy.\<close>

definition js_or_fn :: "'f option \<Rightarrow> 'f \<Rightarrow> 'f" where
  "js_or_fn a b = (case a of None \<Rightarrow> b | Some f \<Rightarrow> f)"

text \<open>\<^verbatim>\<open>${v}\<close> in a template literal, for an optional string.\<close>

definition js_str :: "string option \<Rightarrow> string" where
  "js_str a = (case a of None \<Rightarrow> ''undefined'' | Some s \<Rightarrow> s)"

section \<open>Data\<close>

text \<open>The token object of the UAA client; the code reads \<^verbatim>\<open>access_token\<close> only.\<close>

record token =
  access_token :: string

text \<open>The second argument of \<^verbatim>\<open>request(url, options)\<close> as \<^verbatim>\<open>makeRequest\<close> builds it.\<close>

record 'b options =
  "method" :: string
  body :: "'b option"
  json :: bool
  headers :: obj

text \<open>
  What every operation of the class returns: \<^verbatim>\<open>{statusCode, body}\<close>. The response
  of the transport has these two properties and others, which the code never reads.
\<close>

record 'b result =
  statusCode :: int
  resBody :: 'b

record 'b response = "'b result" +
  resHeaders :: obj

text \<open>The argument of \<^verbatim>\<open>requestProxy\<close>; \<^verbatim>\<open>headers\<close> is a reference into the store.\<close>

type_synonym ref = nat

record proxy_options =
  proxyUrl :: string
  proxyHeaders :: ref

text \<open>The incoming request of express, as far as a proxy could look at it.\<close>

record 'b express_req =
  reqMethod :: string
  reqUrl :: string
  reqHeaders :: obj
  reqBody :: "'b option"

text \<open>Instances of the class \<^verbatim>\<open>UAA\<close> (uaa.js): \<^verbatim>\<open>url\<close>, \<^verbatim>\<open>id\<close>, \<^verbatim>\<open>secret\<close>.\<close>

record UAA =
  uaaUrl :: string
  uaaId :: string
  uaaSecret :: string

section \<open>The outside world\<close>

text \<open>
  Three libraries are called and none is part of the repository:
  \<^verbatim>\<open>predix-uaa-client\<close> (\<^verbatim>\<open>uaaClient.getToken\<close>), the promisified \<^verbatim>\<open>request\<close> and
  \<^verbatim>\<open>express-request-proxy\<close>. The first two are parameters: arbitrary functions
  on a world \<open>'w\<close> that return the outcome of their promise. Every call the code makes
  to one of the three is appended to \<open>calls\<close>, with its arguments, which is what a
  call-counting stub would record.
\<close>

datatype 'b call =
    UaaClientGetToken string string string
  | Request string "'b options"
  | RequestProxy proxy_options "'b express_req"

record ('w, 'e, 'b) externals =
  uaaClient_getToken :: "string \<Rightarrow> string \<Rightarrow> string \<Rightarrow> 'w \<Rightarrow> ('e + token) \<times> 'w"
  promisified_request :: "string \<Rightarrow> 'b options \<Rightarrow> 'w \<Rightarrow> ('e + 'b response) \<times> 'w"

text \<open>
  The state threaded through the code: the world of the libraries, the store of header
  objects (a reference is an index into it) and the calls made so far.
\<close>

record ('w, 'b) state =
  world :: 'w
  heap :: "obj list"
  calls :: "'b call list"

section \<open>uaa.js\<close>

definition UAA_new :: "string \<Rightarrow> string \<Rightarrow> string \<Rightarrow> UAA" where
  "UAA_new url ident secret = \<lparr>uaaUrl = url, uaaId = ident, uaaSecret = secret\<rparr>"

text \<open>\<^verbatim>\<open>getToken() { return uaaClient.getToken(this.url, this.id, this.secret); }\<close>\<close>

definition getToken ::
  "('w, 'e, 'b) externals \<Rightarrow> UAA \<Rightarrow> ('w, 'b) state \<Rightarrow> ('e + token) \<times> ('w, 'b) state" where
  "getToken x this s =
     (case uaaClient_getToken x (uaaUrl this) (uaaId this) (uaaSecret this) (world s) of
        (r, w') \<Rightarrow>
          (r, s\<lparr>world := w',
                calls := calls s @ [UaaClientGetToken (uaaUrl this) (uaaId this) (uaaSecret this)]\<rparr>))"

section \<open>The class IMS\<close>

record ('w, 'e, 'b) IMS =
  uaa :: UAA
  predixZoneId :: string
  subtenantId :: string
  imsUrl :: string
  request :: "string \<Rightarrow> 'b options \<Rightarrow> 'w \<Rightarrow> ('e + 'b response) \<times> 'w"

definition IMS_new ::
  "('w, 'e, 'b) externals \<Rightarrow> UAA \<Rightarrow> string \<Rightarrow> string \<Rightarrow> string option \<Rightarrow>
   (string \<Rightarrow> 'b options \<Rightarrow> 'w \<Rightarrow> ('e + 'b response) \<times> 'w) option \<Rightarrow> ('w, 'e, 'b) IMS" where
  "IMS_new x uaa' predixZoneId' subtenantId' imsUrl' myRequest =
     \<lparr>uaa = uaa',
      predixZoneId = predixZoneId',
      subtenantId = subtenantId',
      imsUrl = js_or imsUrl' ''https://intelligent-mapping-prod.run.aws-usw02-pr.ice.predix.io'',
      request = js_or_fn myRequest (promisified_request x)\<rparr>"

text \<open>\<^verbatim>\<open>this.request(url, options)\<close>, recorded.\<close>

definition call_request ::
  "('w, 'e, 'b) IMS \<Rightarrow> string \<Rightarrow> 'b options \<Rightarrow> ('w, 'b) state \<Rightarrow>
   ('e + 'b response) \<times> ('w, 'b) state" where
  "call_request this url opts s =
     (case request this url opts (world s) of
        (r, w') \<Rightarrow> (r, s\<lparr>world := w', calls := calls s @ [Request url opts]\<rparr>))"

text \<open>
  \<^verbatim>\<open>*makeRequest(uri, method, body)\<close>: a rejected promise at a \<^verbatim>\<open>yield\<close> is thrown into
  the generator, which has no handler, so the operation rejects with it.
\<close>

definition makeRequest ::
  "('w, 'e, 'b) externals \<Rightarrow> ('w, 'e, 'b) IMS \<Rightarrow> string \<Rightarrow> string \<Rightarrow> 'b option \<Rightarrow>
   ('w, 'b) state \<Rightarrow> ('e + 'b result) \<times> ('w, 'b) state" where
  "makeRequest x this uri method' body' s =
     (case getToken x (uaa this) s of
        (Inl e, s1) \<Rightarrow> (Inl e, s1)
      | (Inr token, s1) \<Rightarrow>
          (case call_request this (imsUrl this @ ''/v1/'' @ uri)
                  \<lparr>method = method',
                   body = body',
                   json = True,
                   headers = [''authorization'' \<mapsto> ''Bearer '' @ access_token token,
                              ''x-subtenant-id'' \<mapsto> subtenantId this,
                              ''predix-zone-id'' \<mapsto> predixZoneId this]\<rparr> s1 of
             (Inl e, s2) \<Rightarrow> (Inl e, s2)
           | (Inr response, s2) \<Rightarrow>
               (Inr \<lparr>statusCode = statusCode response, resBody = resBody response\<rparr>, s2)))"

definition get ::
  "('w, 'e, 'b) externals \<Rightarrow> ('w, 'e, 'b) IMS \<Rightarrow> string \<Rightarrow>
   ('w, 'b) state \<Rightarrow> ('e + 'b result) \<times> ('w, 'b) state" where
  "get x this uri = makeRequest x this uri ''GET'' None"

definition post ::
  "('w, 'e, 'b) externals \<Rightarrow> ('w, 'e, 'b) IMS \<Rightarrow> string \<Rightarrow> 'b option \<Rightarrow>
   ('w, 'b) state \<Rightarrow> ('e + 'b result) \<times> ('w, 'b) state" where
  "post x this uri body' = makeRequest x this uri ''POST'' body'"

definition put ::
  "('w, 'e, 'b) externals \<Rightarrow> ('w, 'e, 'b) IMS \<Rightarrow> string \<Rightarrow> 'b option \<Rightarrow>
   ('w, 'b) state \<Rightarrow> ('e + 'b result) \<times> ('w, 'b) state" where
  "put x this uri body' = makeRequest x this uri ''PUT'' body'"

definition getCollections ::
  "('w, 'e, 'b) externals \<Rightarrow> ('w, 'e, 'b) IMS \<Rightarrow>
   ('w, 'b) state \<Rightarrow> ('e + 'b result) \<times> ('w, 'b) state" where
  "getCollections x this = get x this ''collections''"

definition getCollection ::
  "('w, 'e, 'b) externals \<Rightarrow> ('w, 'e, 'b) IMS \<Rightarrow> string \<Rightarrow>
   ('w, 'b) state \<Rightarrow> ('e + 'b result) \<times> ('w, 'b) state" where
  "getCollection x this collName = get x this (''collections/'' @ collName)"

definition postCollection ::
  "('w, 'e, 'b) externals \<Rightarrow> ('w, 'e, 'b) IMS \<Rightarrow> string \<Rightarrow> 'b option \<Rightarrow>
   ('w, 'b) state \<Rightarrow> ('e + 'b result) \<times> ('w, 'b) state" where
  "postCollection x this collName body' = post x this (''collections/'' @ collName) body'"

definition spatialQuery ::
  "('w, 'e, 'b) externals \<Rightarrow> ('w, 'e, 'b) IMS \<Rightarrow> string \<Rightarrow> string \<Rightarrow> 'b option \<Rightarrow>
   ('w, 'b) state \<Rightarrow> ('e + 'b result) \<times> ('w, 'b) state" where
  "spatialQuery x this collName operator body' =
     post x this (''collections/'' @ collName @ ''/spatial-query?operator='' @ operator) body'"

definition getFeatures ::
  "('w, 'e, 'b) externals \<Rightarrow> ('w, 'e, 'b) IMS \<Rightarrow> string \<Rightarrow> string \<Rightarrow>
   ('w, 'b) state \<Rightarrow> ('e + 'b result) \<times> ('w, 'b) state" where
  "getFeatures x this collName featureId =
     get x this (''collections/'' @ collName @ ''/features?id='' @ featureId)"

definition updateFeatures ::
  "('w, 'e, 'b) externals \<Rightarrow> ('w, 'e, 'b) IMS \<Rightarrow> string \<Rightarrow> string \<Rightarrow> 'b option \<Rightarrow>
   ('w, 'b) state \<Rightarrow> ('e + 'b result) \<times> ('w, 'b) state" where
  "updateFeatures x this collName featureId body' =
     put x this (''collections/'' @ collName @ ''/features?id='' @ featureId) body'"

text \<open>The nine methods of the class as one type, to speak of every operation at once.\<close>

datatype 'b operation =
    GetCollections
  | GetCollection string
  | PostCollection string "'b option"
  | SpatialQuery string string "'b option"
  | GetFeatures string string
  | UpdateFeatures string string "'b option"
  | Get string
  | Post string "'b option"
  | Put string "'b option"

fun invoke ::
  "('w, 'e, 'b) externals \<Rightarrow> ('w, 'e, 'b) IMS \<Rightarrow> 'b operation \<Rightarrow>
   ('w, 'b) state \<Rightarrow> ('e + 'b result) \<times> ('w, 'b) state" where
  "invoke x this GetCollections = getCollections x this"
| "invoke x this (GetCollection n) = getCollection x this n"
| "invoke x this (PostCollection n b) = postCollection x this n b"
| "invoke x this (SpatialQuery n operator b) = spatialQuery x this n operator b"
| "invoke x this (GetFeatures n i) = getFeatures x this n i"
| "invoke x this (UpdateFeatures n i b) = updateFeatures x this n i b"
| "invoke x this (Get u) = get x this u"
| "invoke x this (Post u b) = post x this u b"
| "invoke x this (Put u b) = put x this u b"

text \<open>The calls recorded, counted by kind.\<close>

fun token_fetches :: "'b call list \<Rightarrow> nat" where
  "token_fetches [] = 0"
| "token_fetches (UaaClientGetToken u i k # cs) = Suc (token_fetches cs)"
| "token_fetches (c # cs) = token_fetches cs"

fun transport_calls :: "'b call list \<Rightarrow> nat" where
  "transport_calls [] = 0"
| "transport_calls (Request u opts # cs) = Suc (transport_calls cs)"
| "transport_calls (c # cs) = transport_calls cs"

fun proxy_calls :: "'b call list \<Rightarrow> nat" where
  "proxy_calls [] = 0"
| "proxy_calls (RequestProxy po rq # cs) = Suc (proxy_calls cs)"
| "proxy_calls (c # cs) = proxy_calls cs"

section \<open>The store of header objects\<close>

text \<open>
  An object literal allocates a new object; a variable holds its reference. References
  are indices into \<open>heap\<close>, and the code only ever holds references it was given or has
  allocated, so every read below is in range.
\<close>

definition new_object :: "obj \<Rightarrow> ('w, 'b) state \<Rightarrow> ref \<times> ('w, 'b) state" where
  "new_object props s = (length (heap s), s\<lparr>heap := heap s @ [props]\<rparr>)"

text \<open>\<^verbatim>\<open>Object.assign(target, source)\<close>: every property of the source is set on the target.\<close>

definition Object_assign :: "ref \<Rightarrow> ref \<Rightarrow> ('w, 'b) state \<Rightarrow> ('w, 'b) state" where
  "Object_assign target source s =
     s\<lparr>heap := (heap s)[target := (heap s ! target) ++ (heap s ! source)]\<rparr>"

text \<open>\<^verbatim>\<open>o[k] = v\<close>\<close>

definition set_property :: "ref \<Rightarrow> string \<Rightarrow> string \<Rightarrow> ('w, 'b) state \<Rightarrow> ('w, 'b) state" where
  "set_property r k v s = s\<lparr>heap := (heap s)[r := (heap s ! r)(k \<mapsto> v)]\<rparr>"

section \<open>generic-middleware\<close>

text \<open>
  \<^verbatim>\<open>module.exports = function (uaa, additionalHeaders, url) { return function (uri) {
  return function (req, res, next) { uaa.getToken().then(token => { ... }); }; }; };\<close>

  The three nested functions are one curried function. \<^verbatim>\<open>then\<close> is given a handler
  for fulfilment and none for rejection, and nothing follows it: when the promise
  rejects, no code of the module runs. \<^verbatim>\<open>res\<close> and \<^verbatim>\<open>next\<close> are used in one place
  only, as arguments of the function \<^verbatim>\<open>requestProxy\<close> returns, so that call stands
  for them in \<open>calls\<close>.
\<close>

definition genericMiddleware ::
  "('w, 'e, 'b) externals \<Rightarrow> UAA \<Rightarrow> ref \<Rightarrow> string \<Rightarrow> string \<Rightarrow> 'b express_req \<Rightarrow>
   ('w, 'b) state \<Rightarrow> ('w, 'b) state" where
  "genericMiddleware x uaa' additionalHeaders url uri req s =
     (case getToken x uaa' s of
        (Inl e, s1) \<Rightarrow> s1
      | (Inr token, s1) \<Rightarrow>
          (case new_object Map.empty s1 of
             (headers', s2) \<Rightarrow>
               (let s3 = Object_assign headers' additionalHeaders s2;
                    s4 = set_property headers' ''Authorization''
                           (''Bearer '' @ access_token token) s3
                in s4\<lparr>calls := calls s4 @
                     [RequestProxy \<lparr>proxyUrl = url @ uri, proxyHeaders = headers'\<rparr> req]\<rparr>)))"

section \<open>ims-middleware.js\<close>

definition defaultImsUrl :: string where
  "defaultImsUrl = ''https://intelligent-mapping-prod.run.aws-usw02-pr.ice.predix.io''"

definition uaaUrlTail :: string where
  "uaaUrlTail = ''.predix-uaa.run.aws-usw02-pr.ice.predix.io/oauth/token''"

text \<open>The argument \<^verbatim>\<open>props\<close>; the three properties the code guards or defaults are optional.\<close>

record props =
  props_predixZoneId :: string
  props_subtenantId :: string
  props_clientId :: string
  props_clientSecret :: string
  props_uaaInstanceId :: "string option"
  props_uaaUrl :: "string option"
  props_imsUrl :: "string option"

text \<open>The router holds one route: \<^verbatim>\<open>router.all('/*', middleware('/*'))\<close>.\<close>

record ('w, 'b) router =
  routeMethod :: string
  routePath :: string
  routeHandler :: "'b express_req \<Rightarrow> ('w, 'b) state \<Rightarrow> ('w, 'b) state"

definition imsMiddleware ::
  "('w, 'e, 'b) externals \<Rightarrow> props \<Rightarrow> ('w, 'b) state \<Rightarrow> ('w, 'b) router \<times> ('w, 'b) state" where
  "imsMiddleware x props' s =
     (case new_object [''Predix-Zone-Id'' \<mapsto> props_predixZoneId props',
                       ''x-subtenant-id'' \<mapsto> props_subtenantId props',
                       ''content-type'' \<mapsto> ''application/json''] s of
        (headers', s1) \<Rightarrow>
          (let uaa' = UAA_new (js_or (props_uaaUrl props')
                                 (''https://'' @ js_str (props_uaaInstanceId props') @ uaaUrlTail))
                        (props_clientId props') (props_clientSecret props');
               middleware = genericMiddleware x uaa' headers'
                              (js_or (props_imsUrl props') defaultImsUrl)
           in (\<lparr>routeMethod = ''all'', routePath = ''/*'', routeHandler = middleware ''/*''\<rparr>,
               s1)))"

text \<open>The router of express handing a sequence of incoming requests to the route's handler.\<close>

fun serve :: "('w, 'b) router \<Rightarrow> 'b express_req list \<Rightarrow> ('w, 'b) state \<Rightarrow> ('w, 'b) state" where
  "serve r [] s = s"
| "serve r (req # reqs) s = serve r reqs (routeHandler r req s)"

section \<open>Stubs\<close>

text \<open>
  A token provider and a transport that answer every call with a fixed outcome, on a
  world with nothing in it; errors and bodies are strings.
\<close>

definition stub ::
  "(string + token) \<Rightarrow> (string + string response) \<Rightarrow> (unit, string, string) externals" where
  "stub t r =
     \<lparr>uaaClient_getToken = (\<lambda>url ident secret w. (t, w)),
      promisified_request = (\<lambda>url opts w. (r, w))\<rparr>"

definition s0 :: "(unit, string) state" where
  "s0 = \<lparr>world = (), heap = [], calls = []\<rparr>"

definition uaa0 :: UAA where
  "uaa0 = UAA_new ''https://uaa.example/oauth/token'' ''client'' ''secret''"

definition tokenT :: token where
  "tokenT = \<lparr>access_token = ''T''\<rparr>"

definition forbidden :: "string response" where
  "forbidden = \<lparr>statusCode = 403, resBody = ''{error:forbidden}'', resHeaders = Map.empty\<rparr>"

definition ims0 :: "(string + token) \<Rightarrow> (string + string response) \<Rightarrow> (unit, string, string) IMS" where
  "ims0 t r = IMS_new (stub t r) uaa0 ''zone'' ''sub'' (Some ''https://ims.example'') None"

definition req0 :: "string express_req" where
  "req0 = \<lparr>reqMethod = ''GET'', reqUrl = ''/v1/collections'',
           reqHeaders = [''content-type'' \<mapsto> ''text/plain''], reqBody = None\<rparr>"

definition static0 :: obj where
  "static0 = [''Predix-Zone-Id'' \<mapsto> ''zone'', ''Authorization'' \<mapsto> ''Basic abc'']"

definition props0 :: props where
  "props0 = \<lparr>props_predixZoneId = ''zone'', props_subtenantId = ''sub'',
             props_clientId = ''client'', props_clientSecret = ''secret'',
             props_uaaInstanceId = Some ''36b8dd23'', props_uaaUrl = None, props_imsUrl = None\<rparr>"

section \<open>An invariant of the router\<close>

text \<open>
  \<open>carries H hp c\<close>: if \<open>c\<close> is a call of \<^verbatim>\<open>requestProxy\<close>, its header object is in the
  store \<open>hp\<close> and has every property of \<open>H\<close>, \<^verbatim>\<open>Authorization\<close> apart, with the value it has
  in \<open>H\<close>. \<open>serving a H n t\<close>: in the state \<open>t\<close> the object at \<open>a\<close> is \<open>H\<close> and every call
  after the first \<open>n\<close> carries \<open>H\<close>.
\<close>

definition carries :: "obj \<Rightarrow> obj list \<Rightarrow> 'b call \<Rightarrow> bool" where
  "carries H hp c =
     (case c of
        RequestProxy po rq \<Rightarrow>
          proxyHeaders po < length hp \<and>
          (\<forall>k. k \<noteq> ''Authorization'' \<longrightarrow> (hp ! proxyHeaders po) k = H k)
      | _ \<Rightarrow> True)"

definition serving :: "ref \<Rightarrow> obj \<Rightarrow> nat \<Rightarrow> ('w, 'b) state \<Rightarrow> bool" where
  "serving a H n t \<longleftrightarrow>
     a < length (heap t) \<and> heap t ! a = H \<and>
     (\<forall>c \<in> set (drop n (calls t)). carries H (heap t) c)"

section \<open>Counting calls\<close>

lemma token_fetches_append:
  "token_fetches (cs @ ds) = token_fetches cs + token_fetches ds"
  by (induction cs rule: token_fetches.induct) simp_all

lemma transport_calls_append:
  "transport_calls (cs @ ds) = transport_calls cs + transport_calls ds"
  by (induction cs rule: transport_calls.induct) simp_all

lemma proxy_calls_append:
  "proxy_calls (cs @ ds) = proxy_calls cs + proxy_calls ds"
  by (induction cs rule: proxy_calls.induct) simp_all

section \<open>The dispatcher, step by step\<close>

lemma getToken_state:
  "snd (getToken x u s) =
     s\<lparr>world := snd (uaaClient_getToken x (uaaUrl u) (uaaId u) (uaaSecret u) (world s)),
       calls := calls s @ [UaaClientGetToken (uaaUrl u) (uaaId u) (uaaSecret u)]\<rparr>"
  and getToken_outcome:
  "fst (getToken x u s) = fst (uaaClient_getToken x (uaaUrl u) (uaaId u) (uaaSecret u) (world s))"
  by (simp_all add: getToken_def split: prod.splits)

lemma makeRequest_rejected_token:
  assumes "fst (getToken x (uaa this) s) = Inl e"
  shows "makeRequest x this uri m b s = (Inl e, snd (getToken x (uaa this) s))"
  using assms by (cases "getToken x (uaa this) s") (simp add: makeRequest_def)

lemma makeRequest_resolved_token:
  assumes "getToken x (uaa this) s = (Inr tok, s1)"
  shows "makeRequest x this uri m b s =
     (let opts = \<lparr>method = m, body = b, json = True,
                  headers = [''authorization'' \<mapsto> ''Bearer '' @ access_token tok,
                             ''x-subtenant-id'' \<mapsto> subtenantId this,
                             ''predix-zone-id'' \<mapsto> predixZoneId this]\<rparr>;
          url = imsUrl this @ ''/v1/'' @ uri;
          r = request this url opts (world s1)
      in (case fst r of Inl e \<Rightarrow> Inl e
            | Inr response \<Rightarrow> Inr \<lparr>statusCode = statusCode response, resBody = resBody response\<rparr>,
          s1\<lparr>world := snd r, calls := calls s1 @ [Request url opts]\<rparr>))"
  using assms
  by (simp add: makeRequest_def call_request_def Let_def split: prod.splits sum.splits)

lemma invoke_makeRequest:
  "\<exists>uri m b. invoke x this op = makeRequest x this uri m b"
  by (cases op)
     (auto simp: getCollections_def getCollection_def postCollection_def spatialQuery_def
        getFeatures_def updateFeatures_def get_def post_def put_def)

lemma invoke_cases:
  obtains uri m b where "invoke x this op = makeRequest x this uri m b"
  using invoke_makeRequest by blast

section \<open>Results and rejections of the operations\<close>

text \<open>
  C1. Whatever the operation: when the token provider rejects, the operation rejects with
  that error; when it resolves, the operation makes one call of the transport, and then
  the operation rejects if that call rejects (with the same error) and otherwise
  resolves to the object made of the \<^verbatim>\<open>statusCode\<close> and the \<^verbatim>\<open>body\<close> of the response,
  whatever the status code is. So a response the transport completes is never a
  rejection, and a rejection comes from the token provider or from the transport only.
\<close>

theorem invoke_result:
  "case getToken x (uaa this) s of
     (Inl e, s1) \<Rightarrow> invoke x this op s = (Inl e, s1)
   | (Inr tok, s1) \<Rightarrow>
       (\<exists>url opts.
          calls (snd (invoke x this op s)) = calls s1 @ [Request url opts] \<and>
          (case request this url opts (world s1) of
             (Inl e, w2) \<Rightarrow> fst (invoke x this op s) = Inl e
           | (Inr response, w2) \<Rightarrow>
               fst (invoke x this op s) =
                 Inr \<lparr>statusCode = statusCode response, resBody = resBody response\<rparr>))"
proof -
  obtain uri m b where op: "invoke x this op = makeRequest x this uri m b"
    by (rule invoke_cases)
  obtain t s1 where g: "getToken x (uaa this) s = (t, s1)"
    by (cases "getToken x (uaa this) s")
  show ?thesis
  proof (cases t)
    case (Inl e)
    with g have "makeRequest x this uri m b s = (Inl e, s1)"
      using makeRequest_rejected_token [of x this s e uri m b] by simp
    with g Inl op show ?thesis by simp
  next
    case (Inr tok)
    with g have g': "getToken x (uaa this) s = (Inr tok, s1)" by simp
    show ?thesis
      unfolding g' op makeRequest_resolved_token [OF g']
      by (auto simp: Let_def split: prod.splits sum.splits)
  qed
qed

text \<open>Unfolding the stubs and the constructors, for the evaluations at concrete inputs.\<close>

lemmas stub_defs = stub_def s0_def uaa0_def tokenT_def forbidden_def ims0_def IMS_new_def
  UAA_new_def js_or_def js_or_fn_def getToken_def

text \<open>
  The spec's example: the stub answers 403 with the body \<^verbatim>\<open>{error:forbidden}\<close>, and
  \<^verbatim>\<open>getCollection('x')\<close> resolves to exactly that.
\<close>

theorem invoke_result_witness:
  "fst (invoke (stub (Inr tokenT) (Inr forbidden)) (ims0 (Inr tokenT) (Inr forbidden))
          (GetCollection ''x'') s0) =
     Inr \<lparr>statusCode = 403, resBody = ''{error:forbidden}''\<rparr>"
  using invoke_result [where x = "stub (Inr tokenT) (Inr forbidden)"
      and this = "ims0 (Inr tokenT) (Inr forbidden)" and s = s0 and op = "GetCollection ''x''"]
  by (simp add: stub_defs)

text \<open>
  C2. Whatever the operation: when \<^verbatim>\<open>getToken()\<close> rejects with \<open>e\<close>, the operation rejects
  with \<open>e\<close>, the state it leaves is the one \<^verbatim>\<open>getToken()\<close> left, and the transport has
  been called as many times after the operation as before it: not once.
\<close>

theorem invoke_token_rejected:
  assumes "fst (getToken x (uaa this) s) = Inl e"
  shows "fst (invoke x this op s) = Inl e \<and>
         snd (invoke x this op s) = snd (getToken x (uaa this) s) \<and>
         transport_calls (calls (snd (invoke x this op s))) = transport_calls (calls s)"
proof -
  obtain uri m b where op: "invoke x this op = makeRequest x this uri m b"
    by (rule invoke_cases)
  have "invoke x this op s = (Inl e, snd (getToken x (uaa this) s))"
    unfolding op using assms by (rule makeRequest_rejected_token)
  then show ?thesis
    by (simp add: getToken_state transport_calls_append)
qed

theorem invoke_token_rejected_witness:
  "fst (getToken (stub (Inl ''Error getting token: 401'') (Inr forbidden))
          (uaa (ims0 (Inl ''Error getting token: 401'') (Inr forbidden))) s0) =
     Inl ''Error getting token: 401'' \<and>
   fst (invoke (stub (Inl ''Error getting token: 401'') (Inr forbidden))
          (ims0 (Inl ''Error getting token: 401'') (Inr forbidden))
          (SpatialQuery ''roads'' ''nearest'' (Some ''{}'')) s0) =
     Inl ''Error getting token: 401'' \<and>
   transport_calls (calls (snd (invoke (stub (Inl ''Error getting token: 401'') (Inr forbidden))
          (ims0 (Inl ''Error getting token: 401'') (Inr forbidden))
          (SpatialQuery ''roads'' ''nearest'' (Some ''{}'')) s0))) = 0"
proof -
  have h: "fst (getToken (stub (Inl ''Error getting token: 401'') (Inr forbidden))
          (uaa (ims0 (Inl ''Error getting token: 401'') (Inr forbidden))) s0) =
     Inl ''Error getting token: 401''"
    by (simp add: stub_defs)
  have c: "transport_calls (calls s0) = 0"
    by (simp add: s0_def)
  show ?thesis
    using c h
      invoke_token_rejected [OF h, of "SpatialQuery ''roads'' ''nearest'' (Some ''{}'')", THEN conjunct1]
      invoke_token_rejected [OF h, of "SpatialQuery ''roads'' ''nearest'' (Some ''{}'')", THEN conjunct2,
        THEN conjunct2]
    by simp
qed

section \<open>The requests the operations issue\<close>

text \<open>
  C4. Once the token has resolved, \<^verbatim>\<open>getCollection(name)\<close> calls the transport once, with
  the method GET, no body and the URL \<^verbatim>\<open>imsUrl + '/v1/collections/' + name\<close>;
  \<^verbatim>\<open>getFeatures(name, featureId)\<close> likewise with the URL
  \<^verbatim>\<open>imsUrl + '/v1/collections/' + name + '/features?id=' + featureId\<close>; and
  \<^verbatim>\<open>spatialQuery(name, operator, body)\<close> with the method POST, the body it was given and
  the URL \<^verbatim>\<open>imsUrl + '/v1/collections/' + name + '/spatial-query?operator=' + operator\<close>.
  The name, the feature id and the operator are any strings and stand in the URL as they are.
\<close>

theorem path_construction:
  assumes "getToken x (uaa this) s = (Inr tok, s1)"
  shows "\<exists>h.
     calls (snd (getCollection x this name s)) =
       calls s1 @ [Request (imsUrl this @ ''/v1/collections/'' @ name)
                     \<lparr>method = ''GET'', body = None, json = True, headers = h\<rparr>] \<and>
     calls (snd (getFeatures x this name featureId s)) =
       calls s1 @ [Request (imsUrl this @ ''/v1/collections/'' @ name @ ''/features?id='' @ featureId)
                     \<lparr>method = ''GET'', body = None, json = True, headers = h\<rparr>] \<and>
     calls (snd (spatialQuery x this name operator b s)) =
       calls s1 @ [Request (imsUrl this @ ''/v1/collections/'' @ name @
                              ''/spatial-query?operator='' @ operator)
                     \<lparr>method = ''POST'', body = b, json = True, headers = h\<rparr>]"
  by (simp add: getCollection_def getFeatures_def spatialQuery_def get_def post_def
        makeRequest_resolved_token [OF assms] Let_def)

text \<open>The spec's examples: the collection \<^verbatim>\<open>roads\<close>, the feature \<^verbatim>\<open>42\<close>, the operator \<^verbatim>\<open>nearest\<close>.\<close>

theorem path_construction_witness:
  "\<exists>h.
     calls (snd (getCollection (stub (Inr tokenT) (Inr forbidden)) (ims0 (Inr tokenT) (Inr forbidden))
                   ''roads'' s0)) =
       [UaaClientGetToken ''https://uaa.example/oauth/token'' ''client'' ''secret'',
        Request ''https://ims.example/v1/collections/roads''
          \<lparr>method = ''GET'', body = None, json = True, headers = h\<rparr>] \<and>
     calls (snd (getFeatures (stub (Inr tokenT) (Inr forbidden)) (ims0 (Inr tokenT) (Inr forbidden))
                   ''roads'' ''42'' s0)) =
       [UaaClientGetToken ''https://uaa.example/oauth/token'' ''client'' ''secret'',
        Request ''https://ims.example/v1/collections/roads/features?id=42''
          \<lparr>method = ''GET'', body = None, json = True, headers = h\<rparr>] \<and>
     calls (snd (spatialQuery (stub (Inr tokenT) (Inr forbidden)) (ims0 (Inr tokenT) (Inr forbidden))
                   ''roads'' ''nearest'' (Some ''{x:1}'') s0)) =
       [UaaClientGetToken ''https://uaa.example/oauth/token'' ''client'' ''secret'',
        Request ''https://ims.example/v1/collections/roads/spatial-query?operator=nearest''
          \<lparr>method = ''POST'', body = Some ''{x:1}'', json = True, headers = h\<rparr>]"
proof -
  have h: "getToken (stub (Inr tokenT) (Inr forbidden)) (uaa (ims0 (Inr tokenT) (Inr forbidden))) s0 =
             (Inr tokenT,
              s0\<lparr>calls := [UaaClientGetToken ''https://uaa.example/oauth/token'' ''client'' ''secret'']\<rparr>)"
    by (simp add: stub_defs)
  show ?thesis
    using path_construction [OF h, of "''roads''" "''42''" "''nearest''" "Some ''{x:1}''"]
    by (simp add: ims0_def IMS_new_def js_or_def)
qed

text \<open>
  C5. Whatever the operation and the token obtained, the one call of the transport has
  \<^verbatim>\<open>json: true\<close> and a header object with three properties and no other:
  \<^verbatim>\<open>authorization\<close>, which is \<^verbatim>\<open>'Bearer ' + token.access_token\<close>, \<^verbatim>\<open>x-subtenant-id\<close>,
  which is the subtenant id of the instance, and \<^verbatim>\<open>predix-zone-id\<close>, which is its zone id.
\<close>

theorem request_headers:
  assumes "getToken x (uaa this) s = (Inr tok, s1)"
  shows "\<exists>url m b.
     calls (snd (invoke x this op s)) =
       calls s1 @ [Request url
                     \<lparr>method = m, body = b, json = True,
                      headers = [''authorization'' \<mapsto> ''Bearer '' @ access_token tok,
                                 ''x-subtenant-id'' \<mapsto> subtenantId this,
                                 ''predix-zone-id'' \<mapsto> predixZoneId this]\<rparr>]"
proof -
  obtain uri m b where op: "invoke x this op = makeRequest x this uri m b"
    by (rule invoke_cases)
  show ?thesis
    unfolding op makeRequest_resolved_token [OF assms]
    by (simp add: Let_def)
qed

theorem request_headers_witness:
  "\<exists>url m b.
     calls (snd (invoke (stub (Inr tokenT) (Inr forbidden)) (ims0 (Inr tokenT) (Inr forbidden))
                   (UpdateFeatures ''roads'' ''42'' (Some ''{}'')) s0)) =
       [UaaClientGetToken ''https://uaa.example/oauth/token'' ''client'' ''secret'',
        Request url
          \<lparr>method = m, body = b, json = True,
           headers = [''authorization'' \<mapsto> ''Bearer T'',
                      ''x-subtenant-id'' \<mapsto> ''sub'',
                      ''predix-zone-id'' \<mapsto> ''zone'']\<rparr>]"
proof -
  have h: "getToken (stub (Inr tokenT) (Inr forbidden)) (uaa (ims0 (Inr tokenT) (Inr forbidden))) s0 =
             (Inr tokenT,
              s0\<lparr>calls := [UaaClientGetToken ''https://uaa.example/oauth/token'' ''client'' ''secret'']\<rparr>)"
    by (simp add: stub_defs)
  show ?thesis
    using request_headers [OF h, of "UpdateFeatures ''roads'' ''42'' (Some ''{}'')"]
    by (simp add: ims0_def IMS_new_def tokenT_def)
qed

section \<open>Token fetches\<close>

lemma makeRequest_token_fetches:
  "token_fetches (calls (snd (makeRequest x this uri m b s))) = Suc (token_fetches (calls s))"
proof (cases "getToken x (uaa this) s")
  case (Pair t s1)
  have s1: "calls s1 = calls s @ [UaaClientGetToken (uaaUrl (uaa this)) (uaaId (uaa this))
                                   (uaaSecret (uaa this))]"
    using Pair getToken_state [of x "uaa this" s] by simp
  show ?thesis
  proof (cases t)
    case (Inl e)
    with Pair show ?thesis
      using makeRequest_rejected_token [of x this s e uri m b]
      by (simp add: s1 token_fetches_append)
  next
    case (Inr tok)
    with Pair have "getToken x (uaa this) s = (Inr tok, s1)" by simp
    then show ?thesis
      by (simp add: makeRequest_resolved_token Let_def s1 token_fetches_append)
  qed
qed

lemma makeRequest_stubbed:
  assumes "\<forall>u i k w. \<exists>t w'. uaaClient_getToken x u i k w = (Inr t, w')"
    and "\<forall>url opts w. \<exists>w'. request this url opts w = (Inr response, w')"
  shows "fst (makeRequest x this uri m b s) =
           Inr \<lparr>statusCode = statusCode response, resBody = resBody response\<rparr>"
proof -
  obtain tok w1 where
    "uaaClient_getToken x (uaaUrl (uaa this)) (uaaId (uaa this)) (uaaSecret (uaa this)) (world s) =
       (Inr tok, w1)"
    using assms(1) by blast
  then obtain s1 where g: "getToken x (uaa this) s = (Inr tok, s1)"
    by (simp add: getToken_def)
  have "\<And>url opts. fst (request this url opts (world s1)) = Inr response"
    using assms(2) by (metis fst_conv)
  then show ?thesis
    by (simp add: makeRequest_resolved_token [OF g] Let_def)
qed

text \<open>
  C7. An invocation of any operation, whatever its outcome, adds exactly one call of
  \<^verbatim>\<open>getToken()\<close>. With a token provider that always resolves and a transport that always
  completes with the same response, invoking an operation twice in a row gives the same
  result twice, the status code and the body of that response, and two token fetches.
\<close>

theorem one_token_fetch_per_invocation:
  "token_fetches (calls (snd (invoke x this op s))) = Suc (token_fetches (calls s)) \<and>
   ((\<forall>u i k w. \<exists>t w'. uaaClient_getToken x u i k w = (Inr t, w')) \<and>
    (\<forall>url opts w. \<exists>w'. request this url opts w = (Inr response, w')) \<longrightarrow>
    (case invoke x this op s of
       (r1, s1) \<Rightarrow>
         (case invoke x this op s1 of
            (r2, s2) \<Rightarrow>
              r1 = Inr \<lparr>statusCode = statusCode response, resBody = resBody response\<rparr> \<and>
              r2 = r1 \<and>
              token_fetches (calls s2) = token_fetches (calls s) + 2)))"
proof -
  obtain uri m b where op: "invoke x this op = makeRequest x this uri m b"
    by (rule invoke_cases)
  have one: "\<And>t. token_fetches (calls (snd (invoke x this op t))) = Suc (token_fetches (calls t))"
    unfolding op by (rule makeRequest_token_fetches)
  have two: "fst (invoke x this op t) =
               Inr \<lparr>statusCode = statusCode response, resBody = resBody response\<rparr>"
    if "\<forall>u i k w. \<exists>t w'. uaaClient_getToken x u i k w = (Inr t, w')"
      and "\<forall>url opts w. \<exists>w'. request this url opts w = (Inr response, w')" for t
    unfolding op using that by (rule makeRequest_stubbed)
  show ?thesis
  proof (intro conjI impI)
    show "token_fetches (calls (snd (invoke x this op s))) = Suc (token_fetches (calls s))"
      by (rule one)
  next
    assume stubs: "(\<forall>u i k w. \<exists>t w'. uaaClient_getToken x u i k w = (Inr t, w')) \<and>
      (\<forall>url opts w. \<exists>w'. request this url opts w = (Inr response, w'))"
    obtain r1 s1 where i1: "invoke x this op s = (r1, s1)"
      by (cases "invoke x this op s")
    obtain r2 s2 where i2: "invoke x this op s1 = (r2, s2)"
      by (cases "invoke x this op s1")
    have "r1 = Inr \<lparr>statusCode = statusCode response, resBody = resBody response\<rparr>"
      using two [of s] stubs i1 by simp
    moreover have "r2 = Inr \<lparr>statusCode = statusCode response, resBody = resBody response\<rparr>"
      using two [of s1] stubs i2 by simp
    moreover have "token_fetches (calls s2) = token_fetches (calls s) + 2"
      using one [of s] one [of s1] i1 i2 by simp
    ultimately show "case invoke x this op s of
       (r1, s1) \<Rightarrow>
         (case invoke x this op s1 of
            (r2, s2) \<Rightarrow>
              r1 = Inr \<lparr>statusCode = statusCode response, resBody = resBody response\<rparr> \<and>
              r2 = r1 \<and>
              token_fetches (calls s2) = token_fetches (calls s) + 2)"
      by (simp add: i1 i2)
  qed
qed

theorem one_token_fetch_per_invocation_witness:
  "(\<forall>u i k w. \<exists>t w'. uaaClient_getToken (stub (Inr tokenT) (Inr forbidden)) u i k w = (Inr t, w')) \<and>
   (\<forall>url opts w. \<exists>w'. request (ims0 (Inr tokenT) (Inr forbidden)) url opts w = (Inr forbidden, w')) \<and>
   (case invoke (stub (Inr tokenT) (Inr forbidden)) (ims0 (Inr tokenT) (Inr forbidden))
           (GetCollection ''roads'') s0 of
      (r1, s1) \<Rightarrow>
        (case invoke (stub (Inr tokenT) (Inr forbidden)) (ims0 (Inr tokenT) (Inr forbidden))
                (GetCollection ''roads'') s1 of
           (r2, s2) \<Rightarrow>
             r1 = Inr \<lparr>statusCode = 403, resBody = ''{error:forbidden}''\<rparr> \<and>
             r2 = r1 \<and>
             token_fetches (calls s2) = 2))"
proof -
  have a: "\<forall>u i k w. \<exists>t w'.
      uaaClient_getToken (stub (Inr tokenT) (Inr forbidden)) u i k w = (Inr t, w')"
    by (simp add: stub_def)
  have b: "\<forall>url opts w. \<exists>w'.
      request (ims0 (Inr tokenT) (Inr forbidden)) url opts w = (Inr forbidden, w')"
    by (simp add: ims0_def IMS_new_def js_or_fn_def stub_def)
  have c: "token_fetches (calls s0) = 0" "statusCode forbidden = 403"
    "resBody forbidden = ''{error:forbidden}''"
    by (simp_all add: s0_def forbidden_def)
  show ?thesis
    using a b
      one_token_fetch_per_invocation [where x = "stub (Inr tokenT) (Inr forbidden)"
        and this = "ims0 (Inr tokenT) (Inr forbidden)" and op = "GetCollection ''roads''"
        and s = s0 and response = forbidden, THEN conjunct2, rule_format, OF conjI, OF a b]
    by (simp only: c simp_thms add_0)
qed

section \<open>The forwarding middleware, step by step\<close>

text \<open>
  The additional headers are a reference the caller holds, so it is in range:
  \<open>a < length (heap s)\<close>.
\<close>

lemma getToken_heap:
  "heap (snd (getToken x u s)) = heap s"
  by (simp add: getToken_state)

lemma getToken_calls:
  "calls (snd (getToken x u s)) =
     calls s @ [UaaClientGetToken (uaaUrl u) (uaaId u) (uaaSecret u)]"
  by (simp add: getToken_state)

lemma genericMiddleware_rejected_token:
  assumes "fst (getToken x u s) = Inl e"
  shows "genericMiddleware x u a url uri req s = snd (getToken x u s)"
  using assms by (cases "getToken x u s") (simp add: genericMiddleware_def)

lemma genericMiddleware_resolved_token:
  assumes "getToken x u s = (Inr tok, s1)" and "a < length (heap s)"
  shows "genericMiddleware x u a url uri req s =
     s1\<lparr>heap := heap s @ [(heap s ! a)
                              (''Authorization'' \<mapsto> ''Bearer '' @ access_token tok)],
        calls := calls s1 @
          [RequestProxy \<lparr>proxyUrl = url @ uri, proxyHeaders = length (heap s)\<rparr> req]\<rparr>"
  using assms getToken_heap [of x u s]
  by (simp add: genericMiddleware_def new_object_def Object_assign_def set_property_def
      Let_def nth_append)

lemma genericMiddleware_keeps_store:
  "take (length (heap s)) (heap (genericMiddleware x u a url uri req s)) = heap s"
proof (cases "getToken x u s")
  case (Pair t s1)
  then have h: "heap s1 = heap s"
    using getToken_heap [of x u s] by simp
  show ?thesis
  proof (cases t)
    case (Inl e)
    with Pair show ?thesis
      using genericMiddleware_rejected_token [of x u s e a url uri req] by (simp add: h)
  next
    case (Inr tok)
    with Pair show ?thesis
      by (simp add: genericMiddleware_def new_object_def Object_assign_def set_property_def
          Let_def h)
  qed
qed

lemma genericMiddleware_authorization:
  assumes "getToken x u s = (Inr tok, s1)"
  shows "calls (genericMiddleware x u a url uri req s) =
           calls s1 @ [RequestProxy \<lparr>proxyUrl = url @ uri, proxyHeaders = length (heap s)\<rparr> req] \<and>
         (heap (genericMiddleware x u a url uri req s) ! length (heap s)) ''Authorization'' =
           Some (''Bearer '' @ access_token tok)"
  using assms getToken_heap [of x u s]
  by (simp add: genericMiddleware_def new_object_def Object_assign_def set_property_def
      Let_def nth_append)

section \<open>The forwarding middleware\<close>

text \<open>
  C6. When the token resolves, the middleware calls \<^verbatim>\<open>requestProxy\<close> once, with the URL
  \<^verbatim>\<open>url + uri\<close> (the target and the route given to the factory) and a header object that
  is the configured static headers with \<^verbatim>\<open>Authorization\<close> set to
  \<^verbatim>\<open>'Bearer ' + token.access_token\<close>, and hands it the incoming request as it came:
  its method and its body are those of the request.
\<close>

theorem forwarding_call:
  assumes "getToken x u s = (Inr tok, s1)" and "a < length (heap s)"
  shows "\<exists>h.
     calls (genericMiddleware x u a url uri req s) =
       calls s1 @ [RequestProxy \<lparr>proxyUrl = url @ uri, proxyHeaders = h\<rparr> req] \<and>
     heap (genericMiddleware x u a url uri req s) ! h =
       (heap s ! a)(''Authorization'' \<mapsto> ''Bearer '' @ access_token tok)"
  by (rule exI [of _ "length (heap s)"])
     (simp add: genericMiddleware_resolved_token [OF assms])

theorem forwarding_call_witness:
  "\<exists>h.
     calls (genericMiddleware (stub (Inr tokenT) (Inr forbidden)) uaa0 0 ''https://ims.example''
              ''/v1/collections'' req0 (s0\<lparr>heap := [static0]\<rparr>)) =
       [UaaClientGetToken ''https://uaa.example/oauth/token'' ''client'' ''secret'',
        RequestProxy \<lparr>proxyUrl = ''https://ims.example/v1/collections'', proxyHeaders = h\<rparr> req0] \<and>
     heap (genericMiddleware (stub (Inr tokenT) (Inr forbidden)) uaa0 0 ''https://ims.example''
              ''/v1/collections'' req0 (s0\<lparr>heap := [static0]\<rparr>)) ! h =
       [''Predix-Zone-Id'' \<mapsto> ''zone'', ''Authorization'' \<mapsto> ''Bearer T'']"
proof -
  have g: "getToken (stub (Inr tokenT) (Inr forbidden)) uaa0 (s0\<lparr>heap := [static0]\<rparr>) =
             (Inr tokenT,
              s0\<lparr>heap := [static0],
                 calls := [UaaClientGetToken ''https://uaa.example/oauth/token'' ''client'' ''secret'']\<rparr>)"
    by (simp add: stub_defs)
  have a: "0 < length (heap (s0\<lparr>heap := [static0]\<rparr>))"
    by simp
  have m: "static0(''Authorization'' \<mapsto> ''Bearer T'') =
             [''Predix-Zone-Id'' \<mapsto> ''zone'', ''Authorization'' \<mapsto> ''Bearer T'']"
    by (simp add: static0_def)
  show ?thesis
    using forwarding_call [OF g a, of "''https://ims.example''" "''/v1/collections''" req0]
    by (simp add: tokenT_def m)
qed

text \<open>
  C9. Whatever the request and the outcome of the token: every object that was in the
  store before the request is there unchanged after it, the configured additional
  headers among them. When the token resolves, the header object given to
  \<^verbatim>\<open>requestProxy\<close> is a new one, at a reference that was not in the store, and its
  \<^verbatim>\<open>Authorization\<close> is \<^verbatim>\<open>'Bearer ' + token.access_token\<close> whatever the configured headers
  have under that name.
\<close>

theorem forwarding_headers_fresh:
  "take (length (heap s)) (heap (genericMiddleware x u a url uri req s)) = heap s \<and>
   (a < length (heap s) \<longrightarrow> heap (genericMiddleware x u a url uri req s) ! a = heap s ! a) \<and>
   (\<forall>tok s1. getToken x u s = (Inr tok, s1) \<longrightarrow>
      (\<exists>h. length (heap s) \<le> h \<and>
           calls (genericMiddleware x u a url uri req s) =
             calls s1 @ [RequestProxy \<lparr>proxyUrl = url @ uri, proxyHeaders = h\<rparr> req] \<and>
           (heap (genericMiddleware x u a url uri req s) ! h) ''Authorization'' =
             Some (''Bearer '' @ access_token tok)))"
proof (intro conjI allI impI)
  show "take (length (heap s)) (heap (genericMiddleware x u a url uri req s)) = heap s"
    by (rule genericMiddleware_keeps_store)
next
  assume "a < length (heap s)"
  then have "heap (genericMiddleware x u a url uri req s) ! a =
               take (length (heap s)) (heap (genericMiddleware x u a url uri req s)) ! a"
    by simp
  then show "heap (genericMiddleware x u a url uri req s) ! a = heap s ! a"
    by (simp only: genericMiddleware_keeps_store)
next
  fix tok s1
  assume "getToken x u s = (Inr tok, s1)"
  then show "\<exists>h. length (heap s) \<le> h \<and>
           calls (genericMiddleware x u a url uri req s) =
             calls s1 @ [RequestProxy \<lparr>proxyUrl = url @ uri, proxyHeaders = h\<rparr> req] \<and>
           (heap (genericMiddleware x u a url uri req s) ! h) ''Authorization'' =
             Some (''Bearer '' @ access_token tok)"
    using genericMiddleware_authorization [of x u s tok s1 a url uri req] by blast
qed

text \<open>
  Static headers with an \<^verbatim>\<open>Authorization\<close> of their own: the forwarded headers have the
  bearer token, and the configured object still has its own value.
\<close>

theorem forwarding_headers_fresh_witness:
  "getToken (stub (Inr tokenT) (Inr forbidden)) uaa0 (s0\<lparr>heap := [static0]\<rparr>) =
     (Inr tokenT,
      s0\<lparr>heap := [static0],
         calls := [UaaClientGetToken ''https://uaa.example/oauth/token'' ''client'' ''secret'']\<rparr>) \<and>
   heap (genericMiddleware (stub (Inr tokenT) (Inr forbidden)) uaa0 0 ''https://ims.example''
           ''/v1/collections'' req0 (s0\<lparr>heap := [static0]\<rparr>)) ! 0 = static0 \<and>
   static0 ''Authorization'' = Some ''Basic abc'' \<and>
   (\<exists>h. 1 \<le> h \<and>
      calls (genericMiddleware (stub (Inr tokenT) (Inr forbidden)) uaa0 0 ''https://ims.example''
               ''/v1/collections'' req0 (s0\<lparr>heap := [static0]\<rparr>)) =
        [UaaClientGetToken ''https://uaa.example/oauth/token'' ''client'' ''secret'',
         RequestProxy \<lparr>proxyUrl = ''https://ims.example/v1/collections'', proxyHeaders = h\<rparr> req0] \<and>
      (heap (genericMiddleware (stub (Inr tokenT) (Inr forbidden)) uaa0 0 ''https://ims.example''
               ''/v1/collections'' req0 (s0\<lparr>heap := [static0]\<rparr>)) ! h) ''Authorization'' =
        Some ''Bearer T'')"
proof -
  let ?s = "s0\<lparr>heap := [static0]\<rparr>"
  let ?s' = "genericMiddleware (stub (Inr tokenT) (Inr forbidden)) uaa0 0 ''https://ims.example''
           ''/v1/collections'' req0 ?s"
  note t = forwarding_headers_fresh [of ?s "stub (Inr tokenT) (Inr forbidden)" uaa0 0
      "''https://ims.example''" "''/v1/collections''" req0]
  have g: "getToken (stub (Inr tokenT) (Inr forbidden)) uaa0 ?s =
     (Inr tokenT,
      s0\<lparr>heap := [static0],
         calls := [UaaClientGetToken ''https://uaa.example/oauth/token'' ''client'' ''secret'']\<rparr>)"
    by (simp add: stub_defs)
  have a: "0 < length (heap ?s)"
    by simp
  have keep: "heap ?s' ! 0 = static0"
    using t [THEN conjunct2, THEN conjunct1, THEN mp, OF a] by simp
  have auth: "static0 ''Authorization'' = Some ''Basic abc''"
    by (simp add: static0_def)
  show ?thesis
    using g keep auth t [THEN conjunct2, THEN conjunct2, rule_format, OF g]
    by (simp add: tokenT_def)
qed

text \<open>
  C3. The claim asks that, when the token is refused, the middleware complete the
  response with a server error. The code does not: with a token provider that rejects
  with \<^verbatim>\<open>Error getting token: 401\<close>, the call of \<^verbatim>\<open>getToken\<close> is the only thing that
  happens. \<^verbatim>\<open>requestProxy\<close> is not called, and it is the only place where the module
  uses \<^verbatim>\<open>res\<close> and \<^verbatim>\<open>next\<close>: the response is never completed and the next handler
  never invoked.
\<close>

theorem middleware_token_rejected:
  "genericMiddleware (stub (Inl ''Error getting token: 401'') (Inr forbidden)) uaa0 0
     ''https://ims.example'' ''/v1/*'' req0 (s0\<lparr>heap := [static0]\<rparr>) =
   s0\<lparr>heap := [static0],
      calls := [UaaClientGetToken ''https://uaa.example/oauth/token'' ''client'' ''secret'']\<rparr> \<and>
   proxy_calls (calls (genericMiddleware (stub (Inl ''Error getting token: 401'') (Inr forbidden))
     uaa0 0 ''https://ims.example'' ''/v1/*'' req0 (s0\<lparr>heap := [static0]\<rparr>))) = 0"
  by (simp add: genericMiddleware_def stub_defs)

section \<open>The IMS middleware\<close>

lemma carries_append:
  "carries H hp c \<Longrightarrow> carries H (hp @ hs) c"
  by (auto simp: carries_def nth_append split: call.splits)

lemma set_drop_append:
  "c \<in> set (drop n (xs @ ys)) \<Longrightarrow> c \<in> set (drop n xs) \<or> c \<in> set ys"
  by (auto dest: in_set_dropD)

lemma serving_genericMiddleware:
  assumes "serving a H n t"
  shows "serving a H n (genericMiddleware x u a url uri req t)"
proof (cases "getToken x u t")
  case (Pair r t1)
  from assms have a: "a < length (heap t)" and H: "heap t ! a = H"
    and old: "\<And>c. c \<in> set (drop n (calls t)) \<Longrightarrow> carries H (heap t) c"
    by (auto simp: serving_def)
  have c1: "calls t1 = calls t @ [UaaClientGetToken (uaaUrl u) (uaaId u) (uaaSecret u)]"
    and h1: "heap t1 = heap t"
    using Pair getToken_calls [of x u t] getToken_heap [of x u t] by simp_all
  have tok: "carries H hp (UaaClientGetToken (uaaUrl u) (uaaId u) (uaaSecret u))" for hp
    by (simp add: carries_def)
  show ?thesis
  proof (cases r)
    case (Inl e)
    with Pair have st: "genericMiddleware x u a url uri req t = t1"
      using genericMiddleware_rejected_token [of x u t e a url uri req] by simp
    have "carries H (heap t1) c" if "c \<in> set (drop n (calls t1))" for c
      using set_drop_append [OF that [unfolded c1]] old tok by (auto simp: h1)
    then show ?thesis
      unfolding st serving_def using a H by (simp add: h1)
  next
    case (Inr tok')
    with Pair have g: "getToken x u t = (Inr tok', t1)" by simp
    let ?new = "(heap t ! a)(''Authorization'' \<mapsto> ''Bearer '' @ access_token tok')"
    let ?call = "RequestProxy \<lparr>proxyUrl = url @ uri, proxyHeaders = length (heap t)\<rparr> req"
    have new: "carries H (heap t @ [?new]) ?call"
      by (simp add: carries_def H)
    have "carries H (heap t @ [?new]) c"
      if "c \<in> set (drop n ((calls t @ [UaaClientGetToken (uaaUrl u) (uaaId u) (uaaSecret u)])
                               @ [?call]))" for c
    proof -
      from set_drop_append [OF that]
      consider "c \<in> set (drop n (calls t))"
        | "c = UaaClientGetToken (uaaUrl u) (uaaId u) (uaaSecret u)" | "c = ?call"
        using set_drop_append by fastforce
      then show ?thesis
      proof cases
        case 1
        then show ?thesis by (intro carries_append old)
      next
        case 2
        then show ?thesis by (simp add: tok)
      next
        case 3
        then show ?thesis by (simp only: new)
      qed
    qed
    then show ?thesis
      unfolding genericMiddleware_resolved_token [OF g a] serving_def
      using a H by (simp add: c1 nth_append)
  qed
qed

lemma serving_serve:
  assumes "serving a H n t" and "routeHandler r = genericMiddleware x u a url uri"
  shows "serving a H n (serve r reqs t)"
  using assms
  by (induction reqs arbitrary: t) (simp_all add: serving_genericMiddleware)

lemma imsMiddleware_state:
  "snd (imsMiddleware x p s) =
     s\<lparr>heap := heap s @ [[''Predix-Zone-Id'' \<mapsto> props_predixZoneId p,
                            ''x-subtenant-id'' \<mapsto> props_subtenantId p,
                            ''content-type'' \<mapsto> ''application/json'']]\<rparr>"
  by (simp add: imsMiddleware_def new_object_def Let_def)

lemma imsMiddleware_handler:
  "routeHandler (fst (imsMiddleware x p s)) =
     genericMiddleware x
       (UAA_new (js_or (props_uaaUrl p) (''https://'' @ js_str (props_uaaInstanceId p) @ uaaUrlTail))
          (props_clientId p) (props_clientSecret p))
       (length (heap s)) (js_or (props_imsUrl p) defaultImsUrl) ''/*''"
  by (simp add: imsMiddleware_def new_object_def Let_def)

text \<open>
  C10. A router made by the factory is handed any sequence of requests. Every call of
  \<^verbatim>\<open>requestProxy\<close> made since the factory was called has a header object with
  \<^verbatim>\<open>content-type\<close> \<^verbatim>\<open>application/json\<close>, \<^verbatim>\<open>Predix-Zone-Id\<close> the zone id of the properties
  and \<^verbatim>\<open>x-subtenant-id\<close> their subtenant id, whatever the requests were.
\<close>

theorem ims_middleware_content_type:
  assumes "imsMiddleware x p s = (router, s1)"
    and "RequestProxy po rq \<in> set (drop (length (calls s)) (calls (serve router reqs s1)))"
  shows "(heap (serve router reqs s1) ! proxyHeaders po) ''content-type'' = Some ''application/json'' \<and>
         (heap (serve router reqs s1) ! proxyHeaders po) ''Predix-Zone-Id'' =
           Some (props_predixZoneId p) \<and>
         (heap (serve router reqs s1) ! proxyHeaders po) ''x-subtenant-id'' =
           Some (props_subtenantId p)"
proof -
  let ?H = "[''Predix-Zone-Id'' \<mapsto> props_predixZoneId p,
             ''x-subtenant-id'' \<mapsto> props_subtenantId p,
             ''content-type'' \<mapsto> ''application/json'']"
  have s1: "s1 = s\<lparr>heap := heap s @ [?H]\<rparr>"
    using assms(1) imsMiddleware_state [of x p s] by simp
  have h: "routeHandler router =
     genericMiddleware x
       (UAA_new (js_or (props_uaaUrl p) (''https://'' @ js_str (props_uaaInstanceId p) @ uaaUrlTail))
          (props_clientId p) (props_clientSecret p))
       (length (heap s)) (js_or (props_imsUrl p) defaultImsUrl) ''/*''"
    using assms(1) imsMiddleware_handler [of x p s] by simp
  have "serving (length (heap s)) ?H (length (calls s)) s1"
    by (simp add: serving_def s1)
  then have "serving (length (heap s)) ?H (length (calls s)) (serve router reqs s1)"
    using h by (rule serving_serve)
  then have "carries ?H (heap (serve router reqs s1)) (RequestProxy po rq)"
    using assms(2) by (simp add: serving_def)
  then have "\<And>k. k \<noteq> ''Authorization'' \<Longrightarrow> (heap (serve router reqs s1) ! proxyHeaders po) k = ?H k"
    by (simp add: carries_def)
  then show ?thesis by simp
qed

text \<open>An incoming request with the content type \<^verbatim>\<open>text/plain\<close> is forwarded with \<^verbatim>\<open>application/json\<close>.\<close>

theorem ims_middleware_content_type_witness:
  "RequestProxy \<lparr>proxyUrl = ''https://intelligent-mapping-prod.run.aws-usw02-pr.ice.predix.io/*'',
                 proxyHeaders = 1\<rparr> req0
     \<in> set (drop (length (calls s0))
          (calls (serve (fst (imsMiddleware (stub (Inr tokenT) (Inr forbidden)) props0 s0)) [req0]
                    (snd (imsMiddleware (stub (Inr tokenT) (Inr forbidden)) props0 s0))))) \<and>
   reqHeaders req0 ''content-type'' = Some ''text/plain'' \<and>
   (heap (serve (fst (imsMiddleware (stub (Inr tokenT) (Inr forbidden)) props0 s0)) [req0]
            (snd (imsMiddleware (stub (Inr tokenT) (Inr forbidden)) props0 s0))) ! 1)
      ''content-type'' = Some ''application/json''"
proof -
  let ?X = "stub (Inr tokenT) (Inr forbidden)"
  let ?po = "\<lparr>proxyUrl = ''https://intelligent-mapping-prod.run.aws-usw02-pr.ice.predix.io/*'',
              proxyHeaders = 1\<rparr>"
  have p: "imsMiddleware ?X props0 s0 = (fst (imsMiddleware ?X props0 s0), snd (imsMiddleware ?X props0 s0))"
    by simp
  have m: "RequestProxy ?po req0
     \<in> set (drop (length (calls s0))
          (calls (serve (fst (imsMiddleware ?X props0 s0)) [req0] (snd (imsMiddleware ?X props0 s0)))))"
    by (simp add: imsMiddleware_def genericMiddleware_def new_object_def Object_assign_def
        set_property_def Let_def stub_defs props0_def defaultImsUrl_def)
  have r: "reqHeaders req0 ''content-type'' = Some ''text/plain''"
    by (simp add: req0_def)
  show ?thesis
    using m r ims_middleware_content_type [OF p m, THEN conjunct1] by simp
qed

section \<open>The default base URL\<close>

text \<open>
  C8, as stated, says that a supplied \<^verbatim>\<open>imsUrl\<close> replaces the default. The empty string
  is a string a caller can supply, and \<^verbatim>\<open>imsUrl || '...'\<close> takes the default for it: the
  instance does not target the empty URL it was given.
\<close>

theorem empty_imsUrl_not_kept:
  "imsUrl (IMS_new (stub (Inr tokenT) (Inr forbidden)) uaa0 ''zone'' ''sub'' (Some '''') None) =
     ''https://intelligent-mapping-prod.run.aws-usw02-pr.ice.predix.io'' \<and>
   imsUrl (IMS_new (stub (Inr tokenT) (Inr forbidden)) uaa0 ''zone'' ''sub'' (Some '''') None) \<noteq> ''''"
  by (simp add: IMS_new_def js_or_def)

text \<open>
  C8, amended. An instance of the class made with no \<^verbatim>\<open>imsUrl\<close> has the literal default
  base URL, and one made with an \<^verbatim>\<open>imsUrl\<close> has that one unless it is the empty string,
  for which it has the default. The constructor reads and writes no state, so the
  fallback is per instance. The IMS middleware likewise: with a token provider that
  resolves, the URL it gives to \<^verbatim>\<open>requestProxy\<close> is the default followed by the route
  \<^verbatim>\<open>/*\<close> when the properties have no \<^verbatim>\<open>imsUrl\<close> or an empty one, and the given
  \<^verbatim>\<open>imsUrl\<close> followed by \<^verbatim>\<open>/*\<close> otherwise.
\<close>

theorem default_imsUrl:
  "imsUrl (IMS_new x u z st None r) =
     ''https://intelligent-mapping-prod.run.aws-usw02-pr.ice.predix.io'' \<and>
   imsUrl (IMS_new x u z st (Some v) r) =
     (if v = [] then ''https://intelligent-mapping-prod.run.aws-usw02-pr.ice.predix.io'' else v) \<and>
   ((\<forall>a i k w. \<exists>tok w'. uaaClient_getToken x a i k w = (Inr tok, w')) \<longrightarrow>
      (\<exists>h. last (calls (routeHandler (fst (imsMiddleware x (p\<lparr>props_imsUrl := None\<rparr>) s)) req t)) =
             RequestProxy
               \<lparr>proxyUrl = ''https://intelligent-mapping-prod.run.aws-usw02-pr.ice.predix.io'' @ ''/*'',
                proxyHeaders = h\<rparr> req) \<and>
      (\<exists>h. last (calls (routeHandler (fst (imsMiddleware x (p\<lparr>props_imsUrl := Some v\<rparr>) s)) req t)) =
             RequestProxy
               \<lparr>proxyUrl =
                  (if v = [] then ''https://intelligent-mapping-prod.run.aws-usw02-pr.ice.predix.io''
                   else v) @ ''/*'',
                proxyHeaders = h\<rparr> req))"
proof (intro conjI impI)
  show "imsUrl (IMS_new x u z st None r) =
     ''https://intelligent-mapping-prod.run.aws-usw02-pr.ice.predix.io''"
    by (simp add: IMS_new_def js_or_def)
  show "imsUrl (IMS_new x u z st (Some v) r) =
     (if v = [] then ''https://intelligent-mapping-prod.run.aws-usw02-pr.ice.predix.io'' else v)"
    by (simp add: IMS_new_def js_or_def)
next
  assume stub: "\<forall>a i k w. \<exists>tok w'. uaaClient_getToken x a i k w = (Inr tok, w')"
  have run: "\<exists>h. last (calls (routeHandler (fst (imsMiddleware x q s)) req t)) =
               RequestProxy \<lparr>proxyUrl = js_or (props_imsUrl q) defaultImsUrl @ ''/*'',
                              proxyHeaders = h\<rparr> req" for q
  proof -
    let ?u = "UAA_new (js_or (props_uaaUrl q)
                (''https://'' @ js_str (props_uaaInstanceId q) @ uaaUrlTail))
                (props_clientId q) (props_clientSecret q)"
    obtain tok w' where
      "uaaClient_getToken x (uaaUrl ?u) (uaaId ?u) (uaaSecret ?u) (world t) = (Inr tok, w')"
      using stub by blast
    then obtain t1 where g: "getToken x ?u t = (Inr tok, t1)"
      by (simp add: getToken_def)
    show ?thesis
      unfolding imsMiddleware_handler
      using genericMiddleware_authorization [OF g, THEN conjunct1] by simp
  qed
  show "\<exists>h. last (calls (routeHandler (fst (imsMiddleware x (p\<lparr>props_imsUrl := None\<rparr>) s)) req t)) =
             RequestProxy
               \<lparr>proxyUrl = ''https://intelligent-mapping-prod.run.aws-usw02-pr.ice.predix.io'' @ ''/*'',
                proxyHeaders = h\<rparr> req"
    using run [of "p\<lparr>props_imsUrl := None\<rparr>"] by (simp add: js_or_def defaultImsUrl_def)
  show "\<exists>h. last (calls (routeHandler (fst (imsMiddleware x (p\<lparr>props_imsUrl := Some v\<rparr>) s)) req t)) =
             RequestProxy
               \<lparr>proxyUrl =
                  (if v = [] then ''https://intelligent-mapping-prod.run.aws-usw02-pr.ice.predix.io''
                   else v) @ ''/*'',
                proxyHeaders = h\<rparr> req"
    using run [of "p\<lparr>props_imsUrl := Some v\<rparr>"] by (simp add: js_or_def defaultImsUrl_def)
qed

theorem default_imsUrl_witness:
  "(\<forall>a i k w. \<exists>tok w'. uaaClient_getToken (stub (Inr tokenT) (Inr forbidden)) a i k w = (Inr tok, w')) \<and>
   imsUrl (IMS_new (stub (Inr tokenT) (Inr forbidden)) uaa0 ''zone'' ''sub'' None None) =
     ''https://intelligent-mapping-prod.run.aws-usw02-pr.ice.predix.io'' \<and>
   imsUrl (IMS_new (stub (Inr tokenT) (Inr forbidden)) uaa0 ''zone'' ''sub''
             (Some ''https://ims.example'') None) = ''https://ims.example'' \<and>
   (\<exists>h. last (calls (routeHandler
                       (fst (imsMiddleware (stub (Inr tokenT) (Inr forbidden))
                               (props0\<lparr>props_imsUrl := None\<rparr>) s0)) req0
                       (snd (imsMiddleware (stub (Inr tokenT) (Inr forbidden))
                               (props0\<lparr>props_imsUrl := None\<rparr>) s0)))) =
          RequestProxy
            \<lparr>proxyUrl = ''https://intelligent-mapping-prod.run.aws-usw02-pr.ice.predix.io/*'',
             proxyHeaders = h\<rparr> req0) \<and>
   (\<exists>h. last (calls (routeHandler
                       (fst (imsMiddleware (stub (Inr tokenT) (Inr forbidden))
                               (props0\<lparr>props_imsUrl := Some ''https://ims.example''\<rparr>) s0)) req0
                       (snd (imsMiddleware (stub (Inr tokenT) (Inr forbidden))
                               (props0\<lparr>props_imsUrl := Some ''https://ims.example''\<rparr>) s0)))) =
          RequestProxy \<lparr>proxyUrl = ''https://ims.example/*'', proxyHeaders = h\<rparr> req0)"
proof -
  let ?X = "stub (Inr tokenT) (Inr forbidden)"
  have a: "\<forall>a i k w. \<exists>tok w'. uaaClient_getToken ?X a i k w = (Inr tok, w')"
    by (simp add: stub_def)
  note t1 = default_imsUrl [where x = ?X and u = uaa0 and z = "''zone''" and st = "''sub''"
      and r = None and v = "''https://ims.example''" and p = props0 and s = s0 and req = req0
      and t = "snd (imsMiddleware ?X (props0\<lparr>props_imsUrl := None\<rparr>) s0)"]
  note t2 = default_imsUrl [where x = ?X and u = uaa0 and z = "''zone''" and st = "''sub''"
      and r = None and v = "''https://ims.example''" and p = props0 and s = s0 and req = req0
      and t = "snd (imsMiddleware ?X (props0\<lparr>props_imsUrl := Some ''https://ims.example''\<rparr>) s0)"]
  show ?thesis
    using a t1 [THEN conjunct1] t1 [THEN conjunct2, THEN conjunct1]
      t1 [THEN conjunct2, THEN conjunct2, THEN mp, OF a, THEN conjunct1]
      t2 [THEN conjunct2, THEN conjunct2, THEN mp, OF a, THEN conjunct2]
    by simp
qed

end
